theory Spec2Isabelle
  imports Complex_Main
begin

section \<open>The steps selector (\<open>steps-selector\<close>)\<close>

subsection \<open>Data model\<close>

text \<open>
  The values of \<open>options\<close> and \<open>optionsForm\<close> have the type \<open>Object\<close>. The component
  never looks inside one, it only tests \<open>optionsForm\<close> for presence; an object is kept
  here as the list of its properties, keys and values as text.
\<close>

datatype Object = Object "(string \<times> string) list"

text \<open>The interface \<open>Step\<close>. A field marked \<open>?\<close> in the source is optional.\<close>

record Step =
  name :: string
  icon :: string
  type :: string
  tags :: "string list option"
  helpText :: "string option"
  errorText :: "string option"
  options :: "Object option"
  optionsForm :: "Object option"

text \<open>
  The class \<open>StepsSelector\<close>. The fields \<open>dirty\<close> and \<open>steps\<close> stand for the private
  \<open>_dirty\<close> and \<open>_steps\<close> behind the accessors of these names, \<open>initialValue\<close> and
  \<open>completion\<close> are the public fields. The last three fields record what the methods do
  to the outside, oldest entry first: the property names passed to \<open>requestUpdate\<close>, the
  \<open>detail.value\<close> of every \<open>change\<close> event given to \<open>dispatchEvent\<close>, and the messages
  given to \<open>console.error\<close>.
\<close>

record StepsSelector =
  dirty :: bool
  steps :: "Step list"
  initialValue :: "Step list"
  completion :: "Step list \<Rightarrow> Step list"
  requested :: "string list"
  dispatched :: "Step list list"
  console :: "string list"

text \<open>The element as its field initialisers leave it.\<close>

definition initial :: StepsSelector where
  "initial = \<lparr> dirty = False, steps = [], initialValue = [], completion = (\<lambda>_. []),
               requested = [], dispatched = [], console = [] \<rparr>"

subsection \<open>\<open>Array.prototype.slice\<close>\<close>

text \<open>
  An index argument of \<open>slice\<close> is an integer here (the source's \<open>number\<close> is only ever
  given array indices). A negative one counts from the end of the array, and both ends are
  brought into \<open>0..length\<close>, as ECMAScript prescribes.
\<close>

definition relativeIndex :: "int \<Rightarrow> nat \<Rightarrow> nat" where
  "relativeIndex i len =
     (if i < 0 then nat (max (int len + i) 0) else nat (min i (int len)))"

text \<open>\<open>xs.slice(start, fin)\<close>: the elements from \<open>start\<close> up to, not including, \<open>fin\<close>.\<close>

definition slice :: "'a list \<Rightarrow> int \<Rightarrow> int \<Rightarrow> 'a list" where
  "slice xs start fin =
     (let k = relativeIndex start (length xs);
          final = relativeIndex fin (length xs)
      in drop k (take final xs))"

text \<open>\<open>xs.slice(start)\<close>: a missing second argument is the length.\<close>

definition sliceFrom :: "'a list \<Rightarrow> int \<Rightarrow> 'a list" where
  "sliceFrom xs start = slice xs start (int (length xs))"

subsection \<open>Accessors\<close>

text \<open>The setter of \<open>dirty\<close>: store the value, request an update.\<close>

definition set_dirty :: "bool \<Rightarrow> StepsSelector \<Rightarrow> StepsSelector" where
  "set_dirty v st = st\<lparr> dirty := v, requested := requested st @ [''dirty''] \<rparr>"

text \<open>
  The setter of \<open>steps\<close>: store the value, request an update, dispatch a \<open>change\<close> event
  that carries the value.
\<close>

definition set_steps :: "Step list \<Rightarrow> StepsSelector \<Rightarrow> StepsSelector" where
  "set_steps v st =
     st\<lparr> steps := v, requested := requested st @ [''steps''],
         dispatched := dispatched st @ [v] \<rparr>"

subsection \<open>Operations\<close>

text \<open>
  \<open>setStepAt(at, step)\<close>, with the parameter \<open>at\<close> written \<open>at'\<close>. The argument
  \<open>step\<close> is a \<open>Step\<close> or \<open>undefined\<close>; an object is always truthy, so the test
  \<open>if (step)\<close> is the test for \<open>Some\<close>.
\<close>

definition setStepAt :: "int \<Rightarrow> Step option \<Rightarrow> StepsSelector \<Rightarrow> StepsSelector" where
  "setStepAt at' step st =
     (case step of
        Some s \<Rightarrow>
          set_dirty True
            (set_steps (slice (steps st) 0 at' @ [s] @ sliceFrom (steps st) (at' + 1)) st)
      | None \<Rightarrow> st\<lparr> console := console st @ [''Step is undefined''] \<rparr>)"

definition deleteStepAt :: "int \<Rightarrow> StepsSelector \<Rightarrow> StepsSelector" where
  "deleteStepAt at' st = set_dirty True (set_steps (slice (steps st) 0 at') st)"

definition save :: "StepsSelector \<Rightarrow> StepsSelector" where
  "save st = (let st1 = set_dirty False st in st1\<lparr> initialValue := steps st1 \<rparr>)"

definition reset :: "StepsSelector \<Rightarrow> StepsSelector" where
  "reset st = (let st1 = set_dirty False st in set_steps (initialValue st1) st1)"

subsection \<open>Rendering\<close>

text \<open>
  What \<open>render\<close> produces for one \<open>steps-selector-item\<close>: its key, the flag
  \<open>no-options-editor\<close>, the content of its slots, and the candidate list \<open>completion\<close> that
  the listener of its \<open>set\<close> event has captured. The slot \<open>values\<close> holds one \<open>li\<close> per
  candidate, with the candidate's name.
\<close>

record Item =
  item_key :: nat
  item_noOptionsEditor :: bool
  item_icon :: string
  item_name :: string
  item_tags :: "string list option"
  item_type :: string
  item_helpText :: "string option"
  item_errorText :: "string option"
  item_values :: "string list"
  item_completion :: "Step list"

text \<open>The whole template: the class \<open>dirty\<close>, the slot \<open>dirty-icon\<close>, the items.\<close>

record View =
  view_dirtyClass :: bool
  view_dirtyIcon :: bool
  view_items :: "Item list"

text \<open>The first \<open>map\<close> of \<open>render\<close>: each step with the candidates for its position.\<close>

definition withCompletion :: "StepsSelector \<Rightarrow> (Step \<times> Step list) list" where
  "withCompletion st =
     map (\<lambda>(index, step). (step, completion st (slice (steps st) 0 (int index))))
       (enumerate 0 (steps st))"

text \<open>The second \<open>map\<close> of \<open>render\<close>: the item for an index.\<close>

definition renderItem :: "nat \<times> Step \<times> Step list \<Rightarrow> Item" where
  "renderItem = (\<lambda>(index, step, candidates).
     \<lparr> item_key = index,
       item_noOptionsEditor = (optionsForm step = None),
       item_icon = icon step,
       item_name = name step,
       item_tags = tags step,
       item_type = type step,
       item_helpText = helpText step,
       item_errorText = errorText step,
       item_values = map name candidates,
       item_completion = candidates \<rparr>)"

definition render :: "StepsSelector \<Rightarrow> View" where
  "render st =
     \<lparr> view_dirtyClass = dirty st,
       view_dirtyIcon = dirty st,
       view_items = map renderItem (enumerate 0 (withCompletion st)) \<rparr>"

text \<open>
  The listeners that \<open>render\<close> attaches to an item. The one for \<open>set\<close> receives the name
  chosen (\<open>event.detail.value\<close>) and looks it up in the captured candidates;
  \<open>Array.prototype.find\<close> gives the first match or \<open>undefined\<close>.
\<close>

definition onSet :: "Item \<Rightarrow> string \<Rightarrow> StepsSelector \<Rightarrow> StepsSelector" where
  "onSet item chosen st =
     setStepAt (int (item_key item))
       (find (\<lambda>step. name step = chosen) (item_completion item)) st"

definition onDelete :: "Item \<Rightarrow> StepsSelector \<Rightarrow> StepsSelector" where
  "onDelete item st = deleteStepAt (int (item_key item)) st"

text \<open>The operations of the element, as values.\<close>

datatype operation =
  SetStepAt int "Step option" | DeleteStepAt int | Save | Reset

fun perform :: "operation \<Rightarrow> StepsSelector \<Rightarrow> StepsSelector" where
  "perform (SetStepAt i step) st = setStepAt i step st"
| "perform (DeleteStepAt i) st = deleteStepAt i st"
| "perform Save st = save st"
| "perform Reset st = reset st"

section \<open>The popin dialog (\<open>popin-dialog\<close>)\<close>

subsection \<open>Data model\<close>

text \<open>
  A bounding rectangle, in pixels of the viewport's coordinate system. The box of an
  element has a width and a height that are not negative, so \<open>left\<close> and \<open>top\<close> are its
  origin, and \<open>right\<close> and \<open>bottom\<close> are derived. Coordinates are real numbers: the
  rounding of the source's floating-point numbers is left out.
\<close>

record DOMRect =
  rect_left :: real
  rect_top :: real
  rect_width :: real
  rect_height :: real

definition rect_right :: "DOMRect \<Rightarrow> real" where
  "rect_right r = rect_left r + rect_width r"

definition rect_bottom :: "DOMRect \<Rightarrow> real" where
  "rect_bottom r = rect_top r + rect_height r"

text \<open>
  The class \<open>PopinDialog\<close>, as far as its methods read and write the element: the content
  attributes, whether the element holds the keyboard focus, the inline style properties
  \<open>left\<close> and \<open>top\<close> (in pixels; \<open>None\<close> is the empty string, which leaves the property
  unset), and the types of the custom events the element has dispatched, oldest first.
\<close>

record PopinDialog =
  attributes :: "string \<rightharpoonup> string"
  focused :: bool
  style_left :: "real option"
  style_top :: "real option"
  fired :: "string list"

text \<open>The element is displayed unless it has the attribute \<open>hidden\<close> (\<open>:host([hidden])\<close>).\<close>

definition visible :: "PopinDialog \<Rightarrow> bool" where
  "visible p = (attributes p ''hidden'' = None)"

subsection \<open>The platform\<close>

text \<open>
  The methods of the class call into the browser. What the browser does is not in the
  source; it is written here as the DOM and CSS standards describe it, for an element that
  is connected to a displayed document.

  \<open>focus()\<close>: the constructor sets \<open>tabindex = 0\<close>, so the element is focusable whenever it
  is displayed, and \<open>focus()\<close> gives it the focus; on an element that is not displayed
  \<open>focus()\<close> does nothing.
\<close>

definition focus :: "PopinDialog \<Rightarrow> PopinDialog" where
  "focus p = (if visible p then p\<lparr> focused := True \<rparr> else p)"

text \<open>
  Where the browser lays the element out, in viewport coordinates: \<open>natural\<close> is the box
  of the displayed element when its \<open>left\<close> and \<open>top\<close> are unset, and \<open>block_left\<close>,
  \<open>block_top\<close> is the origin of its containing block. The element is \<open>position: absolute\<close>
  (the styles of the class), so the containing block is the padding box of the nearest
  positioned ancestor, or that of the document; its origin is not the viewport's origin
  once the ancestor is offset or the page is scrolled.
\<close>

record Layout =
  natural :: DOMRect
  block_left :: real
  block_top :: real

text \<open>
  \<open>getBoundingClientRect()\<close>: an element that is not displayed has the rectangle of zeros.
  For a displayed one, a \<open>left\<close> or \<open>top\<close> that is set is the distance of that edge from
  the origin of the containing block, and one that is unset leaves the edge at its natural
  position. The size of the box is taken not to depend on the offsets, as for a panel
  with a set width (the usage example of the class gives it one).
\<close>

definition getBoundingClientRect :: "Layout \<Rightarrow> PopinDialog \<Rightarrow> DOMRect" where
  "getBoundingClientRect layout p =
     (if visible p then
        \<lparr> rect_left = (case style_left p of
                         None \<Rightarrow> rect_left (natural layout)
                       | Some l \<Rightarrow> block_left layout + l),
          rect_top = (case style_top p of
                        None \<Rightarrow> rect_top (natural layout)
                      | Some t \<Rightarrow> block_top layout + t),
          rect_width = rect_width (natural layout),
          rect_height = rect_height (natural layout) \<rparr>
      else \<lparr> rect_left = 0, rect_top = 0, rect_width = 0, rect_height = 0 \<rparr>)"

subsection \<open>Methods\<close>

text \<open>
  \<open>attributeChangedCallback(name, _old, value)\<close>; a \<open>value\<close> of \<open>null\<close> is \<open>None\<close>. The
  call to the superclass only copies the attribute to the reactive property, which nothing
  in the class reads.
\<close>

definition attributeChangedCallback ::
    "string \<Rightarrow> string option \<Rightarrow> string option \<Rightarrow> PopinDialog \<Rightarrow> PopinDialog" where
  "attributeChangedCallback nm old v p = (if nm = ''hidden'' \<and> v = None then focus p else p)"

text \<open>
  \<open>setAttribute\<close> and \<open>removeAttribute\<close> of the platform: they change the attribute and
  then run the element's callback. Removing an attribute that is absent does nothing.
\<close>

definition setAttribute :: "string \<Rightarrow> string \<Rightarrow> PopinDialog \<Rightarrow> PopinDialog" where
  "setAttribute nm v p =
     attributeChangedCallback nm (attributes p nm) (Some v)
       (p\<lparr> attributes := (attributes p)(nm \<mapsto> v) \<rparr>)"

definition removeAttribute :: "string \<Rightarrow> PopinDialog \<Rightarrow> PopinDialog" where
  "removeAttribute nm p =
     (case attributes p nm of
        None \<Rightarrow> p
      | Some old \<Rightarrow>
          attributeChangedCallback nm (Some old) None
            (p\<lparr> attributes := (attributes p)(nm := None) \<rparr>))"

text \<open>The handler of \<open>blur\<close>.\<close>

definition blured :: "PopinDialog \<Rightarrow> PopinDialog" where
  "blured p = setAttribute ''hidden'' [] p"

text \<open>
  \<open>blur()\<close> of the platform: an element that holds the focus loses it and receives the
  event \<open>blur\<close>, which runs \<open>onblur\<close>, that is \<open>blured\<close>; on any other element \<open>blur()\<close> does
  nothing.
\<close>

definition blur :: "PopinDialog \<Rightarrow> PopinDialog" where
  "blur p = (if focused p then blured (p\<lparr> focused := False \<rparr>) else p)"

text \<open>The handler of \<open>keydown\<close>, given \<open>event.key\<close>.\<close>

definition keydown :: "string \<Rightarrow> PopinDialog \<Rightarrow> PopinDialog" where
  "keydown k p = (if k = ''Escape'' then blur p else p)"

text \<open>
  \<open>ensureElementInView\<close>, given the layout of the element and \<open>window.innerWidth\<close> and
  \<open>window.innerHeight\<close>. The four tests read the rectangle measured after the reset, each
  on its own, and what is written to \<open>left\<close> and \<open>top\<close> is computed from that rectangle
  and the size of the viewport.
\<close>

definition ensureElementInView :: "Layout \<Rightarrow> real \<Rightarrow> real \<Rightarrow> PopinDialog \<Rightarrow> PopinDialog" where
  "ensureElementInView layout viewportWidth viewportHeight p =
     (let p0 = p\<lparr> style_left := None, style_top := None \<rparr>;
          rect = getBoundingClientRect layout p0;
          p1 = (if rect_right rect > viewportWidth
                then p0\<lparr> style_left := Some (viewportWidth - rect_width rect) \<rparr> else p0);
          p2 = (if rect_left rect < 0 then p1\<lparr> style_left := Some 0 \<rparr> else p1);
          p3 = (if rect_bottom rect > viewportHeight
                then p2\<lparr> style_top := Some (viewportHeight - rect_height rect) \<rparr> else p2);
          p4 = (if rect_top rect < 0 then p3\<lparr> style_top := Some 0 \<rparr> else p3)
      in p4)"

section \<open>Example data\<close>

text \<open>A step with a given name, and a completion in which the candidates depend on the prefix.\<close>

definition exampleStep :: "string \<Rightarrow> Step" where
  "exampleStep n =
     \<lparr> name = n, icon = ''*'', type = ''field'', tags = None, helpText = None,
       errorText = None, options = None, optionsForm = None \<rparr>"

definition exampleCompletion :: "Step list \<Rightarrow> Step list" where
  "exampleCompletion prefix =
     (if prefix = [] then [exampleStep ''A'', exampleStep ''A2'']
      else if map name prefix = [''A''] then [exampleStep ''B'', exampleStep ''B2'']
      else if map name prefix = [''A2''] then [exampleStep ''B3'']
      else [])"

text \<open>A freshly created element that has been given steps with these names.\<close>

definition exampleSelector :: "string list \<Rightarrow> StepsSelector" where
  "exampleSelector names =
     initial\<lparr> steps := map exampleStep names, completion := exampleCompletion \<rparr>"

text \<open>
  A popin dialog as its constructor leaves it, displayed and holding the focus; a
  rectangle given by left, top, width and height; and the layout of a panel with a given
  natural box in a containing block with a given origin.
\<close>

definition examplePopin :: PopinDialog where
  "examplePopin =
     \<lparr> attributes = [''tabindex'' \<mapsto> ''0''], focused = True,
       style_left = None, style_top = None, fired = [] \<rparr>"

definition exampleRect :: "real \<Rightarrow> real \<Rightarrow> real \<Rightarrow> real \<Rightarrow> DOMRect" where
  "exampleRect l t w h = \<lparr> rect_left = l, rect_top = t, rect_width = w, rect_height = h \<rparr>"

definition exampleLayout :: "DOMRect \<Rightarrow> real \<Rightarrow> real \<Rightarrow> Layout" where
  "exampleLayout box bl bt = \<lparr> natural = box, block_left = bl, block_top = bt \<rparr>"

section \<open>Properties of the steps selector\<close>

subsection \<open>Slices\<close>

lemma slice_0_nonneg: "0 \<le> i \<Longrightarrow> slice xs 0 i = take (nat i) xs"
  by (simp add: slice_def relativeIndex_def min_def)

lemma sliceFrom_nonneg: "0 \<le> i \<Longrightarrow> sliceFrom xs i = drop (nat i) xs"
  by (simp add: sliceFrom_def slice_def relativeIndex_def min_def)

lemma slice_0_beyond: "int (length xs) \<le> i \<Longrightarrow> slice xs 0 i = xs"
  by (simp add: slice_def relativeIndex_def min_def)

lemma sliceFrom_beyond: "int (length xs) \<le> i \<Longrightarrow> sliceFrom xs i = []"
  by (simp add: sliceFrom_def slice_def relativeIndex_def min_def)

lemma replace_in_range:
  assumes "0 \<le> i" and "i < int (length xs)"
  shows "slice xs 0 i @ [x] @ sliceFrom xs (i + 1) = xs[nat i := x]"
proof -
  have n: "nat i < length xs" using assms by linarith
  have "slice xs 0 i = take (nat i) xs" using assms(1) by (rule slice_0_nonneg)
  moreover have "sliceFrom xs (i + 1) = drop (Suc (nat i)) xs"
    using assms(1) by (simp add: sliceFrom_nonneg nat_add_distrib)
  ultimately show ?thesis using n by (simp add: upd_conv_take_nth_drop)
qed

subsection \<open>What each operation writes\<close>

lemma steps_setStepAt:
  "steps (setStepAt i (Some x) st) = slice (steps st) 0 i @ [x] @ sliceFrom (steps st) (i + 1)"
  by (simp add: setStepAt_def set_dirty_def set_steps_def)

lemma dirty_setStepAt: "dirty (setStepAt i (Some x) st)"
  by (simp add: setStepAt_def set_dirty_def)

lemma dispatched_setStepAt:
  "dispatched (setStepAt i (Some x) st) = dispatched st @ [steps (setStepAt i (Some x) st)]"
  by (simp add: setStepAt_def set_dirty_def set_steps_def)

lemma setStepAt_None:
  "setStepAt i None st = st\<lparr> console := console st @ [''Step is undefined''] \<rparr>"
  by (simp add: setStepAt_def)

lemma steps_deleteStepAt: "steps (deleteStepAt i st) = slice (steps st) 0 i"
  by (simp add: deleteStepAt_def set_dirty_def set_steps_def)

lemma dirty_deleteStepAt: "dirty (deleteStepAt i st)"
  by (simp add: deleteStepAt_def set_dirty_def)

lemma save_fields:
  "steps (save st) = steps st" "initialValue (save st) = steps st" "\<not> dirty (save st)"
  "dispatched (save st) = dispatched st"
  by (simp_all add: save_def set_dirty_def Let_def)

lemma reset_fields:
  "steps (reset st) = initialValue st" "initialValue (reset st) = initialValue st"
  "\<not> dirty (reset st)"
  by (simp_all add: reset_def set_dirty_def set_steps_def Let_def)

lemma initialValue_setStepAt: "initialValue (setStepAt i step st) = initialValue st"
  by (cases step) (simp_all add: setStepAt_def set_dirty_def set_steps_def)

lemma initialValue_deleteStepAt: "initialValue (deleteStepAt i st) = initialValue st"
  by (simp add: deleteStepAt_def set_dirty_def set_steps_def)

lemma completion_setStepAt: "completion (setStepAt i step st) = completion st"
  by (cases step) (simp_all add: setStepAt_def set_dirty_def set_steps_def)

subsection \<open>The rendered items\<close>

lemma length_withCompletion: "length (withCompletion st) = length (steps st)"
  by (simp add: withCompletion_def)

lemma withCompletion_nth:
  assumes "i < length (steps st)"
  shows "withCompletion st ! i = (steps st ! i, completion st (take i (steps st)))"
  using assms by (simp add: withCompletion_def nth_enumerate_eq slice_0_nonneg)

lemma render_item_nth:
  assumes "i < length (steps st)"
  shows "view_items (render st) ! i =
           renderItem (i, steps st ! i, completion st (take i (steps st)))"
  using assms
  by (simp add: render_def nth_enumerate_eq length_withCompletion withCompletion_nth)

subsection \<open>The example data\<close>

lemma example_steps: "steps (exampleSelector names) = map exampleStep names"
  by (simp add: exampleSelector_def)

lemma example_completion: "completion (exampleSelector names) = exampleCompletion"
  by (simp add: exampleSelector_def)

subsection \<open>Rejected and accepted selections\<close>

text \<open>
  Claim C3. \<open>setStepAt\<close> with an undefined step changes nothing but the console: \<open>steps\<close>,
  \<open>dirty\<close> and the list of dispatched \<open>change\<close> events stay as they are, and the message
  \<open>Step is undefined\<close> goes to \<open>console.error\<close>. This is what happens when the item at
  position \<open>n\<close> asks for a name that none of the candidates for that position has. With a
  step and an index \<open>i\<close> inside the sequence, \<open>setStepAt\<close> replaces the element at \<open>i\<close> and
  no other, sets \<open>dirty\<close>, and dispatches the new sequence.
\<close>

theorem setStepAt_rejects_or_replaces:
  "setStepAt i None st = st\<lparr> console := console st @ [''Step is undefined''] \<rparr> \<and>
   steps (setStepAt i None st) = steps st \<and>
   dirty (setStepAt i None st) = dirty st \<and>
   dispatched (setStepAt i None st) = dispatched st \<and>
   (n < length (steps st) \<and> chosen \<notin> name ` set (completion st (take n (steps st))) \<longrightarrow>
      onSet (view_items (render st) ! n) chosen st = setStepAt (int n) None st) \<and>
   (0 \<le> i \<and> i < int (length (steps st)) \<longrightarrow>
      steps (setStepAt i (Some x) st) = (steps st)[nat i := x] \<and>
      dirty (setStepAt i (Some x) st) \<and>
      dispatched (setStepAt i (Some x) st) = dispatched st @ [(steps st)[nat i := x]])"
proof (intro conjI impI)
  show "setStepAt i None st = st\<lparr> console := console st @ [''Step is undefined''] \<rparr>"
    by (rule setStepAt_None)
  show "steps (setStepAt i None st) = steps st" by (simp add: setStepAt_None)
  show "dirty (setStepAt i None st) = dirty st" by (simp add: setStepAt_None)
  show "dispatched (setStepAt i None st) = dispatched st" by (simp add: setStepAt_None)
next
  assume a: "n < length (steps st) \<and> chosen \<notin> name ` set (completion st (take n (steps st)))"
  then have "find (\<lambda>step. name step = chosen) (completion st (take n (steps st))) = None"
    by (auto simp: find_None_iff)
  with a show "onSet (view_items (render st) ! n) chosen st = setStepAt (int n) None st"
    by (simp add: onSet_def render_item_nth renderItem_def)
next
  assume a: "0 \<le> i \<and> i < int (length (steps st))"
  then have s: "steps (setStepAt i (Some x) st) = (steps st)[nat i := x]"
    by (simp only: steps_setStepAt replace_in_range)
  show "steps (setStepAt i (Some x) st) = (steps st)[nat i := x]" by (rule s)
  show "dirty (setStepAt i (Some x) st)" by (rule dirty_setStepAt)
  show "dispatched (setStepAt i (Some x) st) = dispatched st @ [(steps st)[nat i := x]]"
    using s by (simp add: dispatched_setStepAt)
qed

text \<open>
  On the steps \<open>A, B, C\<close>: the name \<open>Z\<close> is not among the candidates \<open>A, A2\<close> of position 0
  and is rejected; \<open>X\<close> at index 1 gives \<open>A, X, C\<close>.
\<close>

theorem setStepAt_rejects_or_replaces_witness:
  "onSet (view_items (render (exampleSelector [''A'', ''B'', ''C''])) ! 0) ''Z''
       (exampleSelector [''A'', ''B'', ''C'']) =
     (exampleSelector [''A'', ''B'', ''C''])\<lparr> console := [''Step is undefined''] \<rparr> \<and>
   steps (setStepAt 1 (Some (exampleStep ''X'')) (exampleSelector [''A'', ''B'', ''C''])) =
     [exampleStep ''A'', exampleStep ''X'', exampleStep ''C''] \<and>
   dirty (setStepAt 1 (Some (exampleStep ''X'')) (exampleSelector [''A'', ''B'', ''C''])) \<and>
   dispatched (setStepAt 1 (Some (exampleStep ''X'')) (exampleSelector [''A'', ''B'', ''C''])) =
     [[exampleStep ''A'', exampleStep ''X'', exampleStep ''C'']]"
proof -
  let ?st = "exampleSelector [''A'', ''B'', ''C'']"
  have rejected: "0 < length (steps ?st) \<and>
      ''Z'' \<notin> name ` set (completion ?st (take 0 (steps ?st)))"
    by (simp add: example_steps example_completion exampleCompletion_def exampleStep_def)
  have inside: "(0::int) \<le> 1 \<and> 1 < int (length (steps ?st))"
    by (simp add: example_steps)
  have c: "console ?st = []" and d: "dispatched ?st = []"
    by (simp_all add: exampleSelector_def initial_def)
  note at0 = setStepAt_rejects_or_replaces [of 0 ?st 0 "''Z''" "exampleStep ''X''"]
  note at1 = setStepAt_rejects_or_replaces [of 1 ?st 0 "''Z''" "exampleStep ''X''"]
  have "onSet (view_items (render ?st) ! 0) ''Z'' ?st = ?st\<lparr> console := [''Step is undefined''] \<rparr>"
    using at0 rejected c by simp
  moreover have "steps (setStepAt 1 (Some (exampleStep ''X'')) ?st) =
      [exampleStep ''A'', exampleStep ''X'', exampleStep ''C'']"
    using at1 inside by (simp add: example_steps)
  moreover have "dirty (setStepAt 1 (Some (exampleStep ''X'')) ?st)"
    using at1 inside by simp
  moreover have "dispatched (setStepAt 1 (Some (exampleStep ''X'')) ?st) =
      [[exampleStep ''A'', exampleStep ''X'', exampleStep ''C'']]"
    using at1 inside d by (simp add: example_steps)
  ultimately show ?thesis by simp
qed

subsection \<open>Deleting\<close>

text \<open>
  Claim C4. \<open>deleteStepAt\<close> at an index \<open>i\<close> keeps the first \<open>i\<close> steps and drops the step at
  \<open>i\<close> and all after it, so that a sequence of at least \<open>i\<close> steps is left with exactly \<open>i\<close>;
  \<open>dirty\<close> is set whatever the sequence and the index were.
\<close>

theorem deleteStepAt_truncates:
  "dirty (deleteStepAt i st) \<and>
   (0 \<le> i \<longrightarrow> steps (deleteStepAt i st) = take (nat i) (steps st)) \<and>
   (0 \<le> i \<and> i \<le> int (length (steps st)) \<longrightarrow> length (steps (deleteStepAt i st)) = nat i)"
proof (intro conjI impI)
  show "dirty (deleteStepAt i st)" by (rule dirty_deleteStepAt)
next
  assume "0 \<le> i"
  then show "steps (deleteStepAt i st) = take (nat i) (steps st)"
    by (simp add: steps_deleteStepAt slice_0_nonneg)
next
  assume "0 \<le> i \<and> i \<le> int (length (steps st))"
  then show "length (steps (deleteStepAt i st)) = nat i"
    by (simp add: steps_deleteStepAt slice_0_nonneg min_def) linarith
qed

text \<open>
  \<open>deleteStepAt(1)\<close> on \<open>A, B, C, D\<close> leaves \<open>A\<close>; on \<open>A\<close> alone, which already has length 1,
  it leaves \<open>A\<close> and still sets \<open>dirty\<close>.
\<close>

theorem deleteStepAt_truncates_witness:
  "steps (deleteStepAt 1 (exampleSelector [''A'', ''B'', ''C'', ''D''])) = [exampleStep ''A''] \<and>
   dirty (deleteStepAt 1 (exampleSelector [''A'', ''B'', ''C'', ''D''])) \<and>
   length (steps (deleteStepAt 1 (exampleSelector [''A'', ''B'', ''C'', ''D'']))) = 1 \<and>
   steps (deleteStepAt 1 (exampleSelector [''A''])) = [exampleStep ''A''] \<and>
   dirty (deleteStepAt 1 (exampleSelector [''A'']))"
  using deleteStepAt_truncates [of 1 "exampleSelector [''A'', ''B'', ''C'', ''D'']"]
    deleteStepAt_truncates [of 1 "exampleSelector [''A'']"]
  by (simp add: exampleSelector_def)

subsection \<open>Saving and resetting\<close>

text \<open>
  Claim C5. \<open>save\<close>, then a \<open>setStepAt\<close> that succeeds, then \<open>reset\<close>: the steps are those
  present at the \<open>save\<close>, and \<open>dirty\<close> is false. In general \<open>save\<close> copies \<open>steps\<close> into
  \<open>initialValue\<close>, leaves \<open>steps\<close> alone and clears \<open>dirty\<close>; \<open>reset\<close> copies
  \<open>initialValue\<close> into \<open>steps\<close> and clears \<open>dirty\<close>.
\<close>

theorem save_reset_round_trip:
  "steps (reset (setStepAt i (Some x) (save st))) = steps st \<and>
   \<not> dirty (reset (setStepAt i (Some x) (save st))) \<and>
   initialValue (save st) = steps st \<and> steps (save st) = steps st \<and> \<not> dirty (save st) \<and>
   steps (reset st) = initialValue st \<and> \<not> dirty (reset st)"
  by (simp add: save_fields reset_fields initialValue_setStepAt)

text \<open>The steps \<open>A, B, C\<close>, saved, with \<open>X\<close> set at index 1, then reset.\<close>

theorem save_reset_round_trip_witness:
  "steps (reset (setStepAt 1 (Some (exampleStep ''X'')) (save (exampleSelector [''A'', ''B'', ''C''])))) =
     [exampleStep ''A'', exampleStep ''B'', exampleStep ''C''] \<and>
   \<not> dirty (reset (setStepAt 1 (Some (exampleStep ''X'')) (save (exampleSelector [''A'', ''B'', ''C'']))))"
  using save_reset_round_trip [of 1 "exampleStep ''X''" "exampleSelector [''A'', ''B'', ''C'']"]
  by (simp add: example_steps)

subsection \<open>The dirty flag\<close>

text \<open>
  Claim C6. From a state that is not dirty, a \<open>setStepAt\<close> that succeeds and any
  \<open>deleteStepAt\<close> give a dirty state. An operation that takes a dirty state to one that
  is not dirty is \<open>save\<close> or \<open>reset\<close>, and these two always clear the flag.
\<close>

theorem dirty_monotone:
  "(\<not> dirty st \<longrightarrow> dirty (setStepAt i (Some x) st) \<and> dirty (deleteStepAt i st)) \<and>
   (dirty st \<and> \<not> dirty (perform op st) \<longrightarrow> op = Save \<or> op = Reset) \<and>
   \<not> dirty (save st) \<and> \<not> dirty (reset st)"
proof (intro conjI impI)
  show "dirty (setStepAt i (Some x) st)" by (rule dirty_setStepAt)
  show "dirty (deleteStepAt i st)" by (rule dirty_deleteStepAt)
  show "\<not> dirty (save st)" by (rule save_fields)
  show "\<not> dirty (reset st)" by (rule reset_fields)
next
  assume a: "dirty st \<and> \<not> dirty (perform op st)"
  show "op = Save \<or> op = Reset"
  proof (cases op)
    case (SetStepAt j step)
    with a show ?thesis
      by (cases step) (simp_all add: dirty_setStepAt setStepAt_None)
  next
    case (DeleteStepAt j)
    with a show ?thesis by (simp add: dirty_deleteStepAt)
  qed simp_all
qed

text \<open>
  The steps \<open>A, B\<close>, not dirty at first: dirty after \<open>setStepAt\<close> and after
  \<open>deleteStepAt\<close>, and \<open>save\<close> clears the flag again.
\<close>

theorem dirty_monotone_witness:
  "\<not> dirty (exampleSelector [''A'', ''B'']) \<and>
   dirty (setStepAt 0 (Some (exampleStep ''A2'')) (exampleSelector [''A'', ''B''])) \<and>
   dirty (deleteStepAt 0 (exampleSelector [''A'', ''B''])) \<and>
   \<not> dirty (perform Save (deleteStepAt 0 (exampleSelector [''A'', ''B'']))) \<and>
   (Save = Save \<or> Save = Reset)"
proof -
  let ?st = "exampleSelector [''A'', ''B'']"
  have clean: "\<not> dirty ?st" by (simp add: exampleSelector_def initial_def)
  have changed: "dirty (setStepAt 0 (Some (exampleStep ''A2'')) ?st) \<and> dirty (deleteStepAt 0 ?st)"
    using dirty_monotone [of ?st 0 "exampleStep ''A2''" Save] clean by blast
  have saved: "\<not> dirty (perform Save (deleteStepAt 0 ?st))"
    by (simp add: save_fields)
  have "Save = Save \<or> Save = Reset"
    using dirty_monotone [of "deleteStepAt 0 ?st" 0 "exampleStep ''A2''" Save] changed saved
    by blast
  with clean changed saved show ?thesis by blast
qed

subsection \<open>Candidates at render time\<close>

text \<open>
  Claim C7. \<open>render\<close> gives one item per step, and the candidates of the item at index \<open>i\<close>
  are the completion of the first \<open>i\<close> steps of the state that is rendered. So once the
  step at index 0 has been replaced by \<open>a2\<close>, the item at index 1 is rendered with the
  completion of \<open>[a2]\<close>, while the step at index 1 is the one it was.
\<close>

theorem render_completion_fresh:
  "length (view_items (render st)) = length (steps st) \<and>
   (i < length (steps st) \<longrightarrow>
      item_completion (view_items (render st) ! i) = completion st (take i (steps st)) \<and>
      item_values (view_items (render st) ! i) = map name (completion st (take i (steps st)))) \<and>
   (1 < length (steps st) \<and> completion st [a2] = cs \<longrightarrow>
      item_completion (view_items (render (setStepAt 0 (Some a2) st)) ! 1) = cs \<and>
      steps (setStepAt 0 (Some a2) st) ! 1 = steps st ! 1)"
proof (intro conjI impI)
  show "length (view_items (render st)) = length (steps st)"
    by (simp add: render_def length_withCompletion)
next
  assume "i < length (steps st)"
  then have "view_items (render st) ! i =
      renderItem (i, steps st ! i, completion st (take i (steps st)))"
    by (rule render_item_nth)
  then show "item_completion (view_items (render st) ! i) = completion st (take i (steps st))"
    and "item_values (view_items (render st) ! i) = map name (completion st (take i (steps st)))"
    by (simp_all add: renderItem_def)
next
  assume a: "1 < length (steps st) \<and> completion st [a2] = cs"
  let ?st' = "setStepAt 0 (Some a2) st"
  have "(0::int) < int (length (steps st))" using a by linarith
  then have s: "steps ?st' = (steps st)[0 := a2]"
    using replace_in_range [of 0 "steps st" a2] by (simp add: steps_setStepAt)
  then have l: "1 < length (steps ?st')" using a by simp
  have "take 1 (steps ?st') = [a2]"
    using a s by (cases "steps st") simp_all
  then have "view_items (render ?st') ! 1 = renderItem (1, steps ?st' ! 1, completion st [a2])"
    using render_item_nth [OF l] by (simp add: completion_setStepAt)
  then show "item_completion (view_items (render ?st') ! 1) = cs"
    using a by (simp add: renderItem_def)
  show "steps ?st' ! 1 = steps st ! 1" using s by simp
qed

text \<open>
  With the steps \<open>A, B\<close> the item at index 1 offers \<open>B, B2\<close>; after \<open>A\<close> has been replaced
  by \<open>A2\<close> it offers \<open>B3\<close>, and the step at index 1 is still \<open>B\<close>.
\<close>

theorem render_completion_fresh_witness:
  "map name (item_completion (view_items (render (exampleSelector [''A'', ''B''])) ! 1)) = [''B'', ''B2''] \<and>
   map name (item_completion (view_items
      (render (setStepAt 0 (Some (exampleStep ''A2'')) (exampleSelector [''A'', ''B'']))) ! 1)) = [''B3''] \<and>
   steps (setStepAt 0 (Some (exampleStep ''A2'')) (exampleSelector [''A'', ''B''])) ! 1 = exampleStep ''B''"
proof -
  let ?st = "exampleSelector [''A'', ''B'']"
  have two: "1 < length (steps ?st)" by (simp add: example_steps)
  have c: "completion ?st [exampleStep ''A2''] = [exampleStep ''B3'']"
    by (simp add: example_completion exampleCompletion_def exampleStep_def)
  note t = render_completion_fresh [of ?st 1 "exampleStep ''A2''" "[exampleStep ''B3'']"]
  have "item_completion (view_items (render ?st) ! 1) = completion ?st (take 1 (steps ?st))"
    using t two by blast
  then have "map name (item_completion (view_items (render ?st) ! 1)) = [''B'', ''B2'']"
    by (simp add: example_steps example_completion exampleCompletion_def exampleStep_def)
  moreover have "item_completion (view_items (render (setStepAt 0 (Some (exampleStep ''A2'')) ?st)) ! 1)
      = [exampleStep ''B3''] \<and>
      steps (setStepAt 0 (Some (exampleStep ''A2'')) ?st) ! 1 = steps ?st ! 1"
    using t two c by blast
  ultimately show ?thesis by (simp add: example_steps exampleStep_def)
qed

subsection \<open>An index past the end\<close>

text \<open>
  Claim C10. With a step and an index that is at least the length of the sequence,
  \<open>setStepAt\<close> appends the step at the end, whatever the index; it sets \<open>dirty\<close>,
  dispatches the new sequence and reports no error.
\<close>

theorem setStepAt_beyond_appends:
  "int (length (steps st)) \<le> i \<longrightarrow>
     steps (setStepAt i (Some x) st) = steps st @ [x] \<and>
     length (steps (setStepAt i (Some x) st)) = length (steps st) + 1 \<and>
     dirty (setStepAt i (Some x) st) \<and>
     dispatched (setStepAt i (Some x) st) = dispatched st @ [steps st @ [x]] \<and>
     console (setStepAt i (Some x) st) = console st"
proof
  assume a: "int (length (steps st)) \<le> i"
  have s: "steps (setStepAt i (Some x) st) = steps st @ [x]"
    using a by (simp add: steps_setStepAt slice_0_beyond sliceFrom_beyond)
  have "console (setStepAt i (Some x) st) = console st"
    by (simp add: setStepAt_def set_dirty_def set_steps_def)
  with s show "steps (setStepAt i (Some x) st) = steps st @ [x] \<and>
     length (steps (setStepAt i (Some x) st)) = length (steps st) + 1 \<and>
     dirty (setStepAt i (Some x) st) \<and>
     dispatched (setStepAt i (Some x) st) = dispatched st @ [steps st @ [x]] \<and>
     console (setStepAt i (Some x) st) = console st"
    by (simp add: dirty_setStepAt dispatched_setStepAt)
qed

text \<open>\<open>setStepAt(5, X)\<close> on \<open>A, B\<close> gives \<open>A, B, X\<close>.\<close>

theorem setStepAt_beyond_appends_witness:
  "steps (setStepAt 5 (Some (exampleStep ''X'')) (exampleSelector [''A'', ''B''])) =
     [exampleStep ''A'', exampleStep ''B'', exampleStep ''X''] \<and>
   dirty (setStepAt 5 (Some (exampleStep ''X'')) (exampleSelector [''A'', ''B''])) \<and>
   dispatched (setStepAt 5 (Some (exampleStep ''X'')) (exampleSelector [''A'', ''B''])) =
     [[exampleStep ''A'', exampleStep ''B'', exampleStep ''X'']]"
proof -
  let ?st = "exampleSelector [''A'', ''B'']"
  have beyond: "int (length (steps ?st)) \<le> 5" by (simp add: example_steps)
  have d: "dispatched ?st = []" by (simp add: exampleSelector_def initial_def)
  show ?thesis
    using setStepAt_beyond_appends [of ?st 5 "exampleStep ''X''"] beyond d
    by (simp add: example_steps)
qed

section \<open>Properties of the popin dialog\<close>

subsection \<open>What \<open>ensureElementInView\<close> writes\<close>

lemma visible_ensureElementInView:
  "visible (ensureElementInView layout vw vh p) = visible p"
  by (simp add: ensureElementInView_def visible_def Let_def)

lemma style_left_ensureElementInView:
  "visible p \<Longrightarrow> style_left (ensureElementInView layout vw vh p) =
     (if rect_left (natural layout) < 0 then Some 0
      else if rect_left (natural layout) + rect_width (natural layout) > vw
        then Some (vw - rect_width (natural layout))
      else None)"
  by (simp add: ensureElementInView_def getBoundingClientRect_def visible_def Let_def
      rect_right_def)

lemma style_top_ensureElementInView:
  "visible p \<Longrightarrow> style_top (ensureElementInView layout vw vh p) =
     (if rect_top (natural layout) < 0 then Some 0
      else if rect_top (natural layout) + rect_height (natural layout) > vh
        then Some (vh - rect_height (natural layout))
      else None)"
  by (simp add: ensureElementInView_def getBoundingClientRect_def visible_def Let_def
      rect_bottom_def)

lemma hidden_rect:
  "\<not> visible p \<Longrightarrow> getBoundingClientRect layout p =
     \<lparr> rect_left = 0, rect_top = 0, rect_width = 0, rect_height = 0 \<rparr>"
  by (simp add: getBoundingClientRect_def)

lemma visible_rect:
  "visible p \<Longrightarrow> getBoundingClientRect layout p =
     \<lparr> rect_left = (case style_left p of
                      None \<Rightarrow> rect_left (natural layout)
                    | Some l \<Rightarrow> block_left layout + l),
       rect_top = (case style_top p of
                     None \<Rightarrow> rect_top (natural layout)
                   | Some t \<Rightarrow> block_top layout + t),
       rect_width = rect_width (natural layout),
       rect_height = rect_height (natural layout) \<rparr>"
  by (simp add: getBoundingClientRect_def)

subsection \<open>A panel that fits\<close>

text \<open>
  When the containing block starts at the origin of the viewport, an offset is a viewport
  coordinate, and a panel whose measured width and height are at most those of the
  viewport ends inside the viewport, from any natural position and with any offsets left
  over from before.
\<close>

lemma ensureElementInView_contains_at_origin:
  assumes "block_left layout = 0" and "block_top layout = 0"
    and "rect_width (getBoundingClientRect layout p) \<le> viewportWidth"
    and "rect_height (getBoundingClientRect layout p) \<le> viewportHeight"
  shows "let r = getBoundingClientRect layout
                   (ensureElementInView layout viewportWidth viewportHeight p)
         in 0 \<le> rect_left r \<and> rect_left r + rect_width r \<le> viewportWidth \<and>
            0 \<le> rect_top r \<and> rect_top r + rect_height r \<le> viewportHeight"
proof (cases "visible p")
  case False
  then have "\<not> visible (ensureElementInView layout viewportWidth viewportHeight p)"
    by (simp add: visible_ensureElementInView)
  with False assms(3,4) show ?thesis by (simp add: hidden_rect)
next
  case True
  then have v: "visible (ensureElementInView layout viewportWidth viewportHeight p)"
    by (simp add: visible_ensureElementInView)
  from True assms(3,4) have w: "rect_width (natural layout) \<le> viewportWidth"
    and h: "rect_height (natural layout) \<le> viewportHeight"
    by (simp_all add: visible_rect)
  show ?thesis
    using w h True assms(1,2)
    by (simp add: visible_rect [OF v] style_left_ensureElementInView
        style_top_ensureElementInView)
qed

text \<open>
  Claim C1 asks for this of every panel that fits, and the class's own description says
  that the dialog is moved to be fully visible wherever it is placed in the DOM. The method
  measures the panel in viewport coordinates and writes the result to \<open>left\<close> and \<open>top\<close>,
  which are offsets from the containing block. Take a panel of 50 by 40 with its natural
  position at (70, -20), in a containing block whose origin is at (30, 0), and a viewport
  of 100 by 80. The panel fits; it overflows on the right, the method writes
  \<open>left = 100 - 50 = 50\<close>, and the box ends at left 80 and right 130, outside the viewport.
\<close>

theorem ensureElementInView_offset_block_overflows:
  "rect_width (getBoundingClientRect (exampleLayout (exampleRect 70 (-20) 50 40) 30 0)
      examplePopin) \<le> 100 \<and>
   rect_height (getBoundingClientRect (exampleLayout (exampleRect 70 (-20) 50 40) 30 0)
      examplePopin) \<le> 80 \<and>
   style_left (ensureElementInView (exampleLayout (exampleRect 70 (-20) 50 40) 30 0)
      100 80 examplePopin) = Some 50 \<and>
   getBoundingClientRect (exampleLayout (exampleRect 70 (-20) 50 40) 30 0)
     (ensureElementInView (exampleLayout (exampleRect 70 (-20) 50 40) 30 0)
        100 80 examplePopin) = exampleRect 80 0 50 40 \<and>
   \<not> rect_left (exampleRect 80 0 50 40) + rect_width (exampleRect 80 0 50 40) \<le> 100"
  by (simp add: exampleLayout_def exampleRect_def examplePopin_def getBoundingClientRect_def
      visible_def ensureElementInView_def rect_right_def rect_bottom_def Let_def)

subsection \<open>A panel that is too large\<close>

text \<open>
  Claim C2, as stated, asks for the left edge at 0 whenever the panel is wider than the
  viewport. Take a containing block at the origin of the viewport, a viewport 100 wide,
  and a panel 150 wide whose natural left edge is at 10. The panel overflows on the right
  only: the test on the left edge reads the natural position, which is not negative, and
  the panel ends with its left edge at -50.
\<close>

theorem ensureElementInView_wide_counterexample:
  "visible examplePopin \<and>
   block_left (exampleLayout (exampleRect 10 20 150 50) 0 0) = 0 \<and>
   100 < rect_width (natural (exampleLayout (exampleRect 10 20 150 50) 0 0)) \<and>
   rect_left (getBoundingClientRect (exampleLayout (exampleRect 10 20 150 50) 0 0)
     (ensureElementInView (exampleLayout (exampleRect 10 20 150 50) 0 0)
        100 100 examplePopin)) = - 50 \<and>
   rect_left (getBoundingClientRect (exampleLayout (exampleRect 10 20 150 50) 0 0)
     (ensureElementInView (exampleLayout (exampleRect 10 20 150 50) 0 0)
        100 100 examplePopin)) \<noteq> 0"
  by (simp add: exampleLayout_def exampleRect_def examplePopin_def getBoundingClientRect_def
      visible_def ensureElementInView_def rect_right_def rect_bottom_def Let_def)

text \<open>
  Claim C2, amended. For a displayed panel wider than the viewport, the method writes the
  offset \<open>left = 0\<close> when the natural left edge was negative, and otherwise
  \<open>left = viewportWidth - width\<close>. When the containing block starts at the left edge of the
  viewport, the left edge of the panel is at that offset, so at 0 or with the right edge
  of the panel on the right edge of the viewport, and in both cases the panel covers the
  whole width of the viewport (\<open>left \<le> 0\<close> and \<open>viewportWidth \<le> left + width\<close>): as
  little of it as possible is cut off. The same holds for \<open>top\<close> and a panel higher than
  the viewport. Nothing is said of the box in a containing block that starts elsewhere.
\<close>

theorem ensureElementInView_too_large:
  assumes "visible p"
  shows "let p' = ensureElementInView layout viewportWidth viewportHeight p;
             r = getBoundingClientRect layout p'
         in (viewportWidth < rect_width (natural layout) \<longrightarrow>
               style_left p' = Some (if rect_left (natural layout) < 0 then 0
                                     else viewportWidth - rect_width (natural layout)) \<and>
               (block_left layout = 0 \<longrightarrow>
                  rect_left r = (if rect_left (natural layout) < 0 then 0
                                 else viewportWidth - rect_width (natural layout)) \<and>
                  rect_left r \<le> 0 \<and> viewportWidth \<le> rect_left r + rect_width r)) \<and>
            (viewportHeight < rect_height (natural layout) \<longrightarrow>
               style_top p' = Some (if rect_top (natural layout) < 0 then 0
                                    else viewportHeight - rect_height (natural layout)) \<and>
               (block_top layout = 0 \<longrightarrow>
                  rect_top r = (if rect_top (natural layout) < 0 then 0
                                else viewportHeight - rect_height (natural layout)) \<and>
                  rect_top r \<le> 0 \<and> viewportHeight \<le> rect_top r + rect_height r))"
proof -
  have v: "visible (ensureElementInView layout viewportWidth viewportHeight p)"
    using assms by (simp add: visible_ensureElementInView)
  show ?thesis
    using assms
    by (simp add: visible_rect [OF v] style_left_ensureElementInView
        style_top_ensureElementInView)
qed

text \<open>
  A panel of 150 by 60 at (10, -5), in a containing block at the origin of the viewport
  and a viewport of 100 by 40: the offsets written are -50 and 0, the panel is
  right-aligned horizontally and pinned to 0 vertically.
\<close>

theorem ensureElementInView_too_large_witness:
  "visible examplePopin \<and>
   100 < rect_width (natural (exampleLayout (exampleRect 10 (-5) 150 60) 0 0)) \<and>
   40 < rect_height (natural (exampleLayout (exampleRect 10 (-5) 150 60) 0 0)) \<and>
   block_left (exampleLayout (exampleRect 10 (-5) 150 60) 0 0) = 0 \<and>
   block_top (exampleLayout (exampleRect 10 (-5) 150 60) 0 0) = 0 \<and>
   style_left (ensureElementInView (exampleLayout (exampleRect 10 (-5) 150 60) 0 0)
      100 40 examplePopin) = Some (- 50) \<and>
   style_top (ensureElementInView (exampleLayout (exampleRect 10 (-5) 150 60) 0 0)
      100 40 examplePopin) = Some 0 \<and>
   getBoundingClientRect (exampleLayout (exampleRect 10 (-5) 150 60) 0 0)
     (ensureElementInView (exampleLayout (exampleRect 10 (-5) 150 60) 0 0)
        100 40 examplePopin) =
   exampleRect (-50) 0 150 60"
proof -
  let ?layout = "exampleLayout (exampleRect 10 (-5) 150 60) 0 0"
  have v: "visible examplePopin" by (simp add: examplePopin_def visible_def)
  have large: "100 < rect_width (natural ?layout) \<and> 40 < rect_height (natural ?layout)"
    by (simp add: exampleLayout_def exampleRect_def)
  have origin: "block_left ?layout = 0 \<and> block_top ?layout = 0"
    by (simp add: exampleLayout_def)
  have "style_left (ensureElementInView ?layout 100 40 examplePopin) = Some (- 50) \<and>
      style_top (ensureElementInView ?layout 100 40 examplePopin) = Some 0 \<and>
      getBoundingClientRect ?layout (ensureElementInView ?layout 100 40 examplePopin) =
      exampleRect (-50) 0 150 60"
    using ensureElementInView_too_large [OF v, of ?layout 100 40] large origin
    by (simp add: exampleLayout_def exampleRect_def examplePopin_def
        getBoundingClientRect_def visible_def ensureElementInView_def rect_right_def
        rect_bottom_def Let_def)
  with v large origin show ?thesis by blast
qed

subsection \<open>Focus and visibility\<close>

lemma blured_hides: "\<not> visible (blured p)"
  by (simp add: blured_def setAttribute_def attributeChangedCallback_def visible_def)

lemma focused_blured: "focused (blured p) = focused p"
  by (simp add: blured_def setAttribute_def attributeChangedCallback_def)

text \<open>
  Claim C9. On a panel that is displayed and holds the focus, the key Escape does what the
  loss of focus does: the focus is released, the handler of \<open>blur\<close> runs, and the panel is
  hidden. Removing the attribute \<open>hidden\<close> from a hidden panel displays it and gives it the
  focus.
\<close>

theorem escape_and_blur_hide:
  "(visible p \<and> focused p \<longrightarrow>
      keydown ''Escape'' p = blur p \<and> blur p = blured (p\<lparr> focused := False \<rparr>) \<and>
      \<not> visible (keydown ''Escape'' p) \<and> \<not> visible (blur p) \<and> \<not> focused (blur p)) \<and>
   (\<not> visible p \<longrightarrow>
      visible (removeAttribute ''hidden'' p) \<and> focused (removeAttribute ''hidden'' p))"
proof (intro conjI impI)
  assume a: "visible p \<and> focused p"
  then have b: "blur p = blured (p\<lparr> focused := False \<rparr>)" by (simp add: blur_def)
  show "keydown ''Escape'' p = blur p" by (simp add: keydown_def)
  show "blur p = blured (p\<lparr> focused := False \<rparr>)" by (rule b)
  show "\<not> visible (blur p)" by (simp only: b blured_hides not_False_eq_True)
  then show "\<not> visible (keydown ''Escape'' p)" by (simp add: keydown_def)
  show "\<not> focused (blur p)" by (simp add: b focused_blured)
next
  assume a: "\<not> visible p"
  then obtain old where o: "attributes p ''hidden'' = Some old"
    by (auto simp: visible_def)
  then show "visible (removeAttribute ''hidden'' p)"
    by (simp add: removeAttribute_def attributeChangedCallback_def focus_def visible_def)
  from o show "focused (removeAttribute ''hidden'' p)"
    by (simp add: removeAttribute_def attributeChangedCallback_def focus_def visible_def)
qed

text \<open>
  The example panel is hidden by Escape and by the loss of focus; un-hidden after Escape,
  it is displayed and holds the focus again.
\<close>

theorem escape_and_blur_hide_witness:
  "visible examplePopin \<and> focused examplePopin \<and>
   \<not> visible (keydown ''Escape'' examplePopin) \<and> \<not> visible (blur examplePopin) \<and>
   visible (removeAttribute ''hidden'' (keydown ''Escape'' examplePopin)) \<and>
   focused (removeAttribute ''hidden'' (keydown ''Escape'' examplePopin))"
proof -
  have start: "visible examplePopin \<and> focused examplePopin"
    by (simp add: examplePopin_def visible_def)
  have hidden: "\<not> visible (keydown ''Escape'' examplePopin) \<and> \<not> visible (blur examplePopin)"
    using escape_and_blur_hide [of examplePopin] start by blast
  then have "visible (removeAttribute ''hidden'' (keydown ''Escape'' examplePopin)) \<and>
      focused (removeAttribute ''hidden'' (keydown ''Escape'' examplePopin))"
    using escape_and_blur_hide [of "keydown ''Escape'' examplePopin"] by blast
  with start hidden show ?thesis by blast
qed

subsection \<open>Events\<close>

text \<open>
  Claim C8 asks for an event when the panel is closed and when it is opened, and so does
  the documentation comment of the class (\<open>popin-dialog-closed\<close>, \<open>popin-dialog-opened\<close>).
  The class has no call of \<open>dispatchEvent\<close>: the example panel is hidden by the loss of
  focus and displayed again, and no event has been dispatched.
\<close>

theorem popin_fires_nothing:
  "fired examplePopin = [] \<and>
   \<not> visible (blur examplePopin) \<and> fired (blur examplePopin) = [] \<and>
   visible (removeAttribute ''hidden'' (blur examplePopin)) \<and>
   fired (removeAttribute ''hidden'' (blur examplePopin)) = []"
  by (simp add: examplePopin_def blur_def blured_def setAttribute_def removeAttribute_def
      attributeChangedCallback_def focus_def visible_def)

end
